theory Spec2Isabelle
  imports Main "HOL-Library.Word" "HOL-Library.AList" "HOL-Library.Sublist" "HOL-Library.Monad_Syntax"
begin

unbundle bit_operations_syntax

section \<open>Header sets\<close>

text \<open>
  A Go \<^verbatim>\<open>http.Header\<close> is a \<^verbatim>\<open>map[string][]string\<close>. It is modelled as an
  association list from keys to value sequences; the order of the list is the order in
  which a \<^verbatim>\<open>range\<close> over the map visits its entries, which Go leaves unspecified, so a
  statement proved for every list holds for every iteration order. (A list that repeats a
  key stands for no map; its first entry for the key is the one that is read.) Strings
  are byte sequences, as in Go.
\<close>

type_synonym Header = "(string \<times> string list) list"

subsection \<open>Canonical keys (net/textproto)\<close>

text \<open>
  \<^verbatim>\<open>textproto.CanonicalMIMEHeaderKey\<close>: a key that holds a byte outside the token
  characters of RFC 7230 is returned as it is; otherwise the first letter and every letter
  after a hyphen are upper-cased and all other letters lower-cased
  (\<^verbatim>\<open>c -= toLower\<close>, \<^verbatim>\<open>c += toLower\<close> with \<^verbatim>\<open>toLower = 'a' - 'A'\<close>).
\<close>

definition byteval :: "char \<Rightarrow> nat" where
  "byteval c = of_char c"

definition validHeaderFieldByte :: "char \<Rightarrow> bool" where
  "validHeaderFieldByte c =
     ((48 \<le> byteval c \<and> byteval c \<le> 57) \<or>
      (65 \<le> byteval c \<and> byteval c \<le> 90) \<or>
      (97 \<le> byteval c \<and> byteval c \<le> 122) \<or>
      byteval c \<in> set [33, 35, 36, 37, 38, 39, 42, 43, 45, 46, 94, 95, 96, 124, 126])"

definition toLower :: nat where
  "toLower = 32"

definition canonicalByte :: "bool \<Rightarrow> char \<Rightarrow> char" where
  "canonicalByte upper c =
     (if upper \<and> 97 \<le> byteval c \<and> byteval c \<le> 122 then char_of (byteval c - toLower)
      else if \<not> upper \<and> 65 \<le> byteval c \<and> byteval c \<le> 90 then char_of (byteval c + toLower)
      else c)"

fun canonicalCase :: "bool \<Rightarrow> string \<Rightarrow> string" where
  "canonicalCase upper [] = []"
| "canonicalCase upper (c # cs) =
     canonicalByte upper c # canonicalCase (canonicalByte upper c = CHR ''-'') cs"

definition CanonicalMIMEHeaderKey :: "string \<Rightarrow> string" where
  "CanonicalMIMEHeaderKey s =
     (if list_all validHeaderFieldByte s then canonicalCase True s else s)"

subsection \<open>Map operations and the methods of http.Header\<close>

text \<open>
  \<open>index h k\<close> is the Go expression \<^verbatim>\<open>h[k]\<close> (the nil slice for a missing key),
  \<open>delete_key\<close> the builtin \<^verbatim>\<open>delete(h, k)\<close>, \<open>assign\<close> the statement
  \<^verbatim>\<open>h[k] = vv\<close>. \<^verbatim>\<open>Get\<close>, \<^verbatim>\<open>Del\<close>, \<^verbatim>\<open>Add\<close> and \<^verbatim>\<open>Set\<close> canonicalise their key first.
\<close>

definition present :: "Header \<Rightarrow> string \<Rightarrow> bool" where
  "present h k = (map_of h k \<noteq> None)"

definition index :: "Header \<Rightarrow> string \<Rightarrow> string list" where
  "index h k = (case map_of h k of None \<Rightarrow> [] | Some vv \<Rightarrow> vv)"

definition delete_key :: "Header \<Rightarrow> string \<Rightarrow> Header" where
  "delete_key h k = AList.delete k h"

definition assign :: "Header \<Rightarrow> string \<Rightarrow> string list \<Rightarrow> Header" where
  "assign h k vv = AList.update k vv h"

definition Header_Get :: "Header \<Rightarrow> string \<Rightarrow> string" where
  "Header_Get h key =
     (case index h (CanonicalMIMEHeaderKey key) of [] \<Rightarrow> '''' | v # _ \<Rightarrow> v)"

definition Header_Del :: "Header \<Rightarrow> string \<Rightarrow> Header" where
  "Header_Del h key = delete_key h (CanonicalMIMEHeaderKey key)"

definition Header_Add :: "Header \<Rightarrow> string \<Rightarrow> string \<Rightarrow> Header" where
  "Header_Add h key v =
     assign h (CanonicalMIMEHeaderKey key) (index h (CanonicalMIMEHeaderKey key) @ [v])"

definition Header_Set :: "Header \<Rightarrow> string \<Rightarrow> string \<Rightarrow> Header" where
  "Header_Set h key v = assign h (CanonicalMIMEHeaderKey key) [v]"

subsection \<open>The header lists and the header functions of proxy.go\<close>

definition hopHeaders :: "string list" where
  "hopHeaders =
     [''Connection'', ''Keep-Alive'', ''Proxy-Authenticate'', ''Proxy-Authorization'',
      ''Te'', ''Trailers'', ''Transfer-Encoding'', ''Upgrade'',
      ''Sec-Websocket-Accept'', ''Sec-Websocket-Extensions'', ''Sec-Websocket-Key'',
      ''Sec-Websocket-Version'']"

definition WebsocketDialHeaders :: "string list" where
  "WebsocketDialHeaders =
     [''Upgrade'', ''Connection'', ''Sec-Websocket-Key'', ''Sec-Websocket-Version'',
      ''Sec-Websocket-Extensions'', ''Sec-Websocket-Accept'']"

text \<open>\<^verbatim>\<open>copyHeader(dst, src)\<close>: the updated \<open>dst\<close> is returned.\<close>

definition copyHeader :: "Header \<Rightarrow> Header \<Rightarrow> Header" where
  "copyHeader dst src =
     fold (\<lambda>(k, vv) d. fold (\<lambda>v d'. Header_Add d' k v) vv d) src dst"

text \<open>\<^verbatim>\<open>strings.Split(s, sep)\<close> for a one-byte separator.\<close>

fun Split :: "char \<Rightarrow> string \<Rightarrow> string list" where
  "Split sep [] = [[]]"
| "Split sep (c # cs) =
     (if c = sep then [] # Split sep cs
      else (case Split sep cs of [] \<Rightarrow> [[c]] | f # fs \<Rightarrow> (c # f) # fs))"

text \<open>
  \<^verbatim>\<open>removeConnectionHeaders(h)\<close>. \<^verbatim>\<open>strings.TrimSpace\<close> works on Unicode code points; it
  is the parameter \<open>TrimSpace\<close>, and every statement below holds for any such function.
  \<open>asciiTrimSpace\<close> is the function on strings of ASCII bytes.
\<close>

definition removeConnectionHeaders :: "(string \<Rightarrow> string) \<Rightarrow> Header \<Rightarrow> Header" where
  "removeConnectionHeaders TrimSpace h =
     (let c = Header_Get h ''Connection'' in
      if c \<noteq> '''' then
        fold (\<lambda>f h'. let f' = TrimSpace f in if f' \<noteq> '''' then Header_Del h' f' else h')
          (Split (CHR '','') c) h
      else h)"

definition asciiSpace :: "char \<Rightarrow> bool" where
  "asciiSpace c = (byteval c \<in> set [9, 10, 11, 12, 13, 32])"

definition asciiTrimSpace :: "string \<Rightarrow> string" where
  "asciiTrimSpace s = rev (dropWhile asciiSpace (rev (dropWhile asciiSpace s)))"

text \<open>
  The loop that ServeHTTP runs over \<^verbatim>\<open>WebsocketDialHeaders\<close> (on the outbound request's
  headers) and over \<^verbatim>\<open>hopHeaders\<close> (on the backend's response headers):
  \<^verbatim>\<open>hv := h.Get(name); if hv == "" { continue }; h.Del(name)\<close>.
\<close>

definition delIfValue :: "string \<Rightarrow> Header \<Rightarrow> Header" where
  "delIfValue name h = (if Header_Get h name = '''' then h else Header_Del h name)"

definition delHeaders :: "string list \<Rightarrow> Header \<Rightarrow> Header" where
  "delHeaders names h = fold delIfValue names h"

text \<open>
  The stripping step of ServeHTTP on the backend's response headers:
  \<^verbatim>\<open>removeConnectionHeaders(resp.Header)\<close>, then the loop over \<^verbatim>\<open>hopHeaders\<close>.
\<close>

definition stripHopByHop :: "(string \<Rightarrow> string) \<Rightarrow> Header \<Rightarrow> Header" where
  "stripHopByHop TrimSpace h = delHeaders hopHeaders (removeConnectionHeaders TrimSpace h)"

section \<open>Path joining\<close>

definition HasSuffix_slash :: "string \<Rightarrow> bool" where
  "HasSuffix_slash a = (a \<noteq> [] \<and> last a = CHR ''/'')"

definition HasPrefix_slash :: "string \<Rightarrow> bool" where
  "HasPrefix_slash b = (b \<noteq> [] \<and> hd b = CHR ''/'')"

definition singleJoiningSlash :: "string \<Rightarrow> string \<Rightarrow> string" where
  "singleJoiningSlash a b =
     (let aslash = HasSuffix_slash a; bslash = HasPrefix_slash b in
      if aslash \<and> bslash then a @ tl b
      else if \<not> aslash \<and> \<not> bslash then a @ ''/'' @ b
      else a @ b)"

section \<open>Requests, URLs and the store\<close>

text \<open>
  \<^verbatim>\<open>*http.Request\<close> and \<^verbatim>\<open>*url.URL\<close> are pointers and \<^verbatim>\<open>http.Header\<close> is a reference
  to a map, so a copy of a request struct shares its URL object and its header map with the
  original. Objects live in a store, at addresses; \<open>None\<close> is the nil pointer or nil map.
  \<open>next_addr\<close> is the next address the allocator hands out.
\<close>

type_synonym addr = nat

record URL =
  Scheme :: string
  Host :: string
  Path :: string
  RawQuery :: string

record Request =
  req_URL :: "addr option"
  req_Header :: "addr option"
  req_Host :: string

record store =
  requests :: "addr \<Rightarrow> Request option"
  urls :: "addr \<Rightarrow> URL option"
  headers :: "addr \<Rightarrow> Header option"
  next_addr :: addr

text \<open>
  A computation that panics (a nil dereference, an assignment to an entry of a nil map, a
  call of a nil function) is \<open>None\<close>.
\<close>

definition new_Request :: "store \<Rightarrow> addr \<times> store" where
  "new_Request s =
     (next_addr s,
      s\<lparr>requests := (requests s)(next_addr s \<mapsto> \<lparr>req_URL = None, req_Header = None, req_Host = ''''\<rparr>),
        next_addr := Suc (next_addr s)\<rparr>)"

definition make_Header :: "store \<Rightarrow> addr \<times> store" where
  "make_Header s =
     (next_addr s, s\<lparr>headers := (headers s)(next_addr s \<mapsto> []), next_addr := Suc (next_addr s)\<rparr>)"

text \<open>Reading through a nil map sees the empty map; writing through it panics.\<close>

definition read_Header :: "store \<Rightarrow> addr option \<Rightarrow> Header option" where
  "read_Header s r = (case r of None \<Rightarrow> Some [] | Some a \<Rightarrow> headers s a)"

definition write_Header :: "store \<Rightarrow> addr option \<Rightarrow> Header \<Rightarrow> store option" where
  "write_Header s r h =
     (case r of
        None \<Rightarrow> None
      | Some a \<Rightarrow> (if headers s a = None then None else Some (s\<lparr>headers := (headers s)(a \<mapsto> h)\<rparr>)))"

definition assign_URL :: "addr \<Rightarrow> (URL \<Rightarrow> URL) \<Rightarrow> store \<Rightarrow> store option" where
  "assign_URL u f s = do { x \<leftarrow> urls s u; Some (s\<lparr>urls := (urls s)(u \<mapsto> f x)\<rparr>) }"

fun foldM :: "('a \<Rightarrow> 's \<Rightarrow> 's option) \<Rightarrow> 'a list \<Rightarrow> 's \<Rightarrow> 's option" where
  "foldM f [] s = Some s"
| "foldM f (x # xs) s = (case f x s of None \<Rightarrow> None | Some s' \<Rightarrow> foldM f xs s')"

text \<open>
  \<^verbatim>\<open>copyHeader(dst, src)\<close> on references: \<^verbatim>\<open>dst.Add\<close> is called once for every value of
  \<open>src\<close>, so \<open>dst\<close> is written only when \<open>src\<close> holds a value.
\<close>

definition copyHeader_at :: "addr option \<Rightarrow> addr option \<Rightarrow> store \<Rightarrow> store option" where
  "copyHeader_at dst src s = do {
     hs \<leftarrow> read_Header s src;
     if list_all (\<lambda>(k, vv). vv = []) hs then Some s
     else do { hdst \<leftarrow> read_Header s dst; write_Header s dst (copyHeader hdst hs) }
   }"

subsection \<open>The Director of NewSingleHostReverseProxy\<close>

text \<open>
  The closure captures the pointer \<open>target\<close> and the string \<open>targetQuery\<close>; \<open>req\<close> is
  the request it is applied to. Each assignment reads the store as it is at that point.
  \<open>joinQuery\<close> is the \<^verbatim>\<open>if\<close> on the two query strings, \<open>switchScheme\<close> the
  \<^verbatim>\<open>switch\<close> on the scheme.
\<close>

definition joinQuery :: "string \<Rightarrow> string \<Rightarrow> string" where
  "joinQuery targetQuery rawQuery =
     (if targetQuery = '''' \<or> rawQuery = '''' then targetQuery @ rawQuery
      else targetQuery @ ''&'' @ rawQuery)"

definition switchScheme :: "string \<Rightarrow> string" where
  "switchScheme scheme =
     (if scheme = ''https'' then ''wss'' else if scheme = ''http'' then ''ws'' else scheme)"

definition director :: "addr \<Rightarrow> string \<Rightarrow> addr \<Rightarrow> store \<Rightarrow> store option" where
  "director target targetQuery req s0 = do {
     r \<leftarrow> requests s0 req;
     u \<leftarrow> req_URL r;
     t \<leftarrow> urls s0 target;
     s1 \<leftarrow> assign_URL u (\<lambda>x. x\<lparr>Scheme := Scheme t\<rparr>) s0;
     t \<leftarrow> urls s1 target;
     s2 \<leftarrow> assign_URL u (\<lambda>x. x\<lparr>Host := Host t\<rparr>) s1;
     t \<leftarrow> urls s2 target;
     s3 \<leftarrow> assign_URL u (\<lambda>x. x\<lparr>Path := singleJoiningSlash (Path t) (Path x)\<rparr>) s2;
     s4 \<leftarrow> assign_URL u (\<lambda>x. x\<lparr>RawQuery := joinQuery targetQuery (RawQuery x)\<rparr>) s3;
     h \<leftarrow> read_Header s4 (req_Header r);
     s5 \<leftarrow> (if present h ''User-Agent'' then Some s4
            else write_Header s4 (req_Header r) (Header_Set h ''User-Agent'' ''''));
     assign_URL u (\<lambda>x. x\<lparr>Scheme := switchScheme (Scheme x)\<rparr>) s5
   }"

text \<open>
  What the Director leaves in the URL object \<open>x\<close> of the request for the target \<open>t\<close>, and in
  the request's header set.
\<close>

definition rewritten :: "URL \<Rightarrow> string \<Rightarrow> URL \<Rightarrow> URL" where
  "rewritten t targetQuery x =
     x\<lparr>Host := Host t,
       Path := singleJoiningSlash (Path t) (Path x),
       RawQuery := joinQuery targetQuery (RawQuery x),
       Scheme := switchScheme (Scheme t)\<rparr>"

definition blankUserAgent :: "Header \<Rightarrow> Header" where
  "blankUserAgent h = (if present h ''User-Agent'' then h else Header_Set h ''User-Agent'' '''')"

subsection \<open>The outbound request of ServeHTTP\<close>

text \<open>
  The loop over \<^verbatim>\<open>WebsocketDialHeaders\<close> on \<^verbatim>\<open>outReq.Header\<close>; \<^verbatim>\<open>Get\<close> on a nil map
  returns the empty string.
\<close>

definition delIfValue_at :: "addr \<Rightarrow> string \<Rightarrow> store \<Rightarrow> store option" where
  "delIfValue_at rq name s = do {
     q \<leftarrow> requests s rq;
     h \<leftarrow> read_Header s (req_Header q);
     if Header_Get h name = '''' then Some s
     else write_Header s (req_Header q) (Header_Del h name)
   }"

text \<open>
  \<open>buildOutReq\<close> is ServeHTTP from \<^verbatim>\<open>outReq := new(http.Request)\<close> to the end of the
  loop over \<^verbatim>\<open>WebsocketDialHeaders\<close>, with the configured \<^verbatim>\<open>p.Director\<close> as a parameter.
  It returns the address of \<open>outReq\<close> and the store.
\<close>

definition buildOutReq ::
  "(addr \<Rightarrow> store \<Rightarrow> store option) \<Rightarrow> addr \<Rightarrow> store \<Rightarrow> (addr \<times> store) option" where
  "buildOutReq Director req s0 = do {
     let (outReq, s1) = new_Request s0;
     r \<leftarrow> requests s1 req;
     let s2 = s1\<lparr>requests := (requests s1)(outReq \<mapsto> r)\<rparr>;
     let (h, s3) = make_Header s2;
     q \<leftarrow> requests s3 outReq;
     let s4 = s3\<lparr>requests := (requests s3)(outReq \<mapsto> q\<lparr>req_Header := Some h\<rparr>)\<rparr>;
     q \<leftarrow> requests s4 outReq;
     r \<leftarrow> requests s4 req;
     s5 \<leftarrow> copyHeader_at (req_Header q) (req_Header r) s4;
     s6 \<leftarrow> Director outReq s5;
     s7 \<leftarrow> foldM (delIfValue_at outReq) WebsocketDialHeaders s6;
     Some (outReq, s7)
   }"

text \<open>An allocated object lies below \<open>next_addr\<close>.\<close>

definition wf_store :: "store \<Rightarrow> bool" where
  "wf_store s = (\<forall>a. next_addr s \<le> a \<longrightarrow> requests s a = None \<and> headers s a = None)"

section \<open>The relay loop\<close>

text \<open>
  A Go \<^verbatim>\<open>error\<close> value is known by the text of its \<^verbatim>\<open>Error()\<close> method, which is what
  \<^verbatim>\<open>fmt.Sprintf("%v", err)\<close> prints, and by whether it is a \<^verbatim>\<open>*websocket.CloseError\<close>,
  which carries a code and a text. Byte slices are strings.
\<close>

datatype error =
    CloseError (Code: int) (Text: string) (Error: string)
  | PlainError (Error: string)

definition CloseNoStatusReceived :: int where "CloseNoStatusReceived = 1005"
definition CloseAbnormalClosure :: int where "CloseAbnormalClosure = 1006"


text \<open>
  \<^verbatim>\<open>websocket.FormatCloseMessage\<close>: the code as an unsigned 16-bit integer, big-endian,
  followed by the text; the empty (non-nil) slice for the code "no status received".
\<close>

definition PutUint16 :: "16 word \<Rightarrow> string" where
  "PutUint16 v = [char_of (unat (drop_bit 8 v)), char_of (unat v)]"

definition FormatCloseMessage :: "int \<Rightarrow> string \<Rightarrow> string" where
  "FormatCloseMessage closeCode text =
     (if closeCode = CloseNoStatusReceived then []
      else PutUint16 (word_of_int closeCode) @ text)"







subsection \<open>The translation as the specification words it\<close>




text \<open>Reading a close payload back: the code and the text (the receiving side of the library).\<close>

definition parseCloseMessage :: "string \<Rightarrow> (int \<times> string) option" where
  "parseCloseMessage m =
     (case m of
        b0 # b1 # text \<Rightarrow> Some (int (byteval b0) * 256 + int (byteval b1), text)
      | _ \<Rightarrow> None)"

section \<open>ServeHTTP\<close>

text \<open>
  The fields of \<^verbatim>\<open>ReverseProxy\<close>; \<open>None\<close> is nil. The dialer, the hook, the error handler
  and the logger are code of the caller: what matters here is whether they are set.
\<close>

record ReverseProxy =
  Director :: "(addr \<Rightarrow> store \<Rightarrow> store option) option"
  Dialer :: "unit option"
  WebsocketConnectionClosedHook :: "unit option"
  ErrorHandler :: "unit option"
  Logger :: "unit option"

definition NewSingleHostReverseProxy :: "store \<Rightarrow> addr \<Rightarrow> ReverseProxy option" where
  "NewSingleHostReverseProxy s target = do {
     t \<leftarrow> urls s target;
     Some \<lparr>Director = Some (director target (RawQuery t)), Dialer = None,
           WebsocketConnectionClosedHook = None, ErrorHandler = None, Logger = None\<rparr>
   }"

record Response =
  StatusCode :: int
  Status :: string
  resp_Header :: Header

text \<open>
  The header sets of the backend's response and of the response writer are two maps, not
  nil, and they are used as values.

  What the collaborators answer: the dialer (a connection and a response, or an error with
  or without a response), whether the response writer is an \<^verbatim>\<open>http.Hijacker\<close>, the errors
  of \<^verbatim>\<open>Hijack\<close>, of \<^verbatim>\<open>resp.Write\<close> and of \<^verbatim>\<open>Upgrade\<close>, the headers of the response writer,
  and the first value the \<^verbatim>\<open>select\<close> receives, with its channel (\<open>None\<close>: no direction
  ever reports).
\<close>

datatype dial_result = Connected Response | DialError error "Response option"

datatype channel = errClient | errBackend

record env =
  dial :: dial_result
  hijacker :: bool
  hijackErr :: "error option"
  writeErr :: "error option"
  rwHeader :: Header
  upgradeErr :: "error option"
  firstErr :: "(channel \<times> error) option"

text \<open>
  What ServeHTTP does is a trace of events, the calls it makes on its collaborators: a log
  line on the default logger or on \<^verbatim>\<open>p.Logger\<close> with its format and arguments
  (\<open>ArgType\<close> is \<^verbatim>\<open>reflect.TypeOf(rw)\<close>), the custom error handler, \<^verbatim>\<open>rw.WriteHeader\<close>, the
  dial (whether with the default dialer, the URL and the headers), \<^verbatim>\<open>Hijack\<close>,
  \<^verbatim>\<open>resp.Write\<close>, the close of the hijacked connection, \<^verbatim>\<open>Upgrade\<close> with its headers,
  the start of a relay goroutine (named by its result channel), the close of the client's
  and of the backend's connection, and the connection-closed hook.
\<close>

datatype arg = ArgErr error | ArgStr string | ArgInt int | ArgType

datatype event =
    StdLogPrintf string "arg list"
  | LoggerPrintf string "arg list"
  | CustomErrorHandler error
  | WriteHeader int
  | DialContext bool URL Header
  | Hijack
  | ResponseWrite Response
  | CloseHijackedConn
  | Upgrade Header
  | Go channel
  | CloseUnderlyingConn
  | CloseTargetConn
  | ConnectionClosedHook

datatype outcome = Returned | Panicked | Blocked

text \<open>
  \<^verbatim>\<open>logf\<close> appends to the trace and says whether it returned (\<open>True\<close>) or panicked: the
  call \<^verbatim>\<open>p.Logger.Printf\<close> on a nil interface value is a nil dereference.
\<close>

definition logf :: "ReverseProxy \<Rightarrow> string \<Rightarrow> arg list \<Rightarrow> event list \<Rightarrow> bool \<times> event list" where
  "logf p format args tr =
     (let tr1 = (if Logger p = None then tr @ [StdLogPrintf format args] else tr) in
      case Logger p of
        None \<Rightarrow> (False, tr1)
      | Some l \<Rightarrow> (True, tr1 @ [LoggerPrintf format args]))"

text \<open>Sequencing: the rest runs when the call returned; a panic ends the function.\<close>

definition andThen ::
  "bool \<times> event list \<Rightarrow> (event list \<Rightarrow> outcome \<times> event list) \<Rightarrow> outcome \<times> event list" where
  "andThen r k = (case r of (ok, tr) \<Rightarrow> if ok then k tr else (Panicked, tr))"

text \<open>A deferred call runs when the function returns and when it panics.\<close>

definition deferred :: "event list \<Rightarrow> outcome \<times> event list \<Rightarrow> outcome \<times> event list" where
  "deferred ds r = (case r of (oc, tr) \<Rightarrow> (oc, tr @ ds))"

definition defaultErrorHandler :: "ReverseProxy \<Rightarrow> error \<Rightarrow> event list \<Rightarrow> outcome \<times> event list" where
  "defaultErrorHandler p err tr =
     andThen (logf p ''http: proxy error: %v'' [ArgErr err] tr)
       (\<lambda>tr1. (Returned, tr1 @ [WriteHeader 502]))"

definition getErrorHandler :: "ReverseProxy \<Rightarrow> error \<Rightarrow> event list \<Rightarrow> outcome \<times> event list" where
  "getErrorHandler p =
     (case ErrorHandler p of
        Some f \<Rightarrow> (\<lambda>err tr. (Returned, tr @ [CustomErrorHandler err]))
      | None \<Rightarrow> defaultErrorHandler p)"

text \<open>The branch \<^verbatim>\<open>if err != nil\<close> after the dial; \<open>host\<close> is \<^verbatim>\<open>req.Host\<close>.\<close>

definition dialFailed ::
  "ReverseProxy \<Rightarrow> env \<Rightarrow> string \<Rightarrow> error \<Rightarrow> Response option \<Rightarrow> event list \<Rightarrow> outcome \<times> event list" where
  "dialFailed p e host err resp tr =
     (case resp of
        None \<Rightarrow>
          andThen (logf p ''websocket: Error dialing %q: %v'' [ArgStr host, ArgErr err] tr)
            (getErrorHandler p err)
      | Some r \<Rightarrow>
          andThen (logf p ''websocket: Error dialing %q: %v with resp: %d %s''
                     [ArgStr host, ArgErr err, ArgInt (StatusCode r), ArgStr (Status r)] tr)
            (\<lambda>tr1.
               if \<not> hijacker e then
                 andThen (logf p ''websocket: %s can not be hijack'' [ArgType] tr1)
                   (getErrorHandler p err)
               else
                 (case hijackErr e of
                    Some errHijack \<Rightarrow>
                      andThen (logf p ''websocket: Failed to hijack responseWriter'' [] (tr1 @ [Hijack]))
                        (getErrorHandler p errHijack)
                  | None \<Rightarrow>
                      deferred [CloseHijackedConn]
                        (case writeErr e of
                           Some errWrite \<Rightarrow>
                             andThen (logf p ''websocket: Failed to forward response'' []
                                        (tr1 @ [Hijack, ResponseWrite r]))
                               (getErrorHandler p errWrite)
                         | None \<Rightarrow> (Returned, tr1 @ [Hijack, ResponseWrite r])))))"

text \<open>
  The deferred function installed after a successful upgrade, and the rest of ServeHTTP
  after it: the two goroutines, the \<^verbatim>\<open>select\<close> and the log.
\<close>

definition teardown :: "ReverseProxy \<Rightarrow> event list" where
  "teardown p =
     [CloseUnderlyingConn, CloseTargetConn] @
     (case WebsocketConnectionClosedHook p of None \<Rightarrow> [] | Some hook \<Rightarrow> [ConnectionClosedHook])"

definition relayMessage :: "channel \<Rightarrow> string" where
  "relayMessage c =
     (case c of
        errClient \<Rightarrow> ''websocket: Error when copying from backend to client: %v''
      | errBackend \<Rightarrow> ''websocket: Error when copying from client to backend: %v'')"

definition logCondition :: "error \<Rightarrow> bool" where
  "logCondition err =
     (case err of CloseError code text d \<Rightarrow> code = CloseAbnormalClosure | PlainError d \<Rightarrow> True)"

definition relay :: "ReverseProxy \<Rightarrow> env \<Rightarrow> event list \<Rightarrow> outcome \<times> event list" where
  "relay p e tr =
     (case firstErr e of
        None \<Rightarrow> (Blocked, tr @ [Go errClient, Go errBackend])
      | Some (c, err) \<Rightarrow>
          deferred (teardown p)
            (if logCondition err
             then andThen (logf p (relayMessage c) [ArgErr err] (tr @ [Go errClient, Go errBackend]))
                    (\<lambda>tr1. (Returned, tr1))
             else (Returned, tr @ [Go errClient, Go errBackend])))"

text \<open>ServeHTTP after a successful dial: the response headers, the upgrade, the relay.\<close>

definition upgradeAndRelay ::
  "(string \<Rightarrow> string) \<Rightarrow> ReverseProxy \<Rightarrow> env \<Rightarrow> Response \<Rightarrow> event list \<Rightarrow> outcome \<times> event list" where
  "upgradeAndRelay TrimSpace p e resp tr =
     (let h = copyHeader (stripHopByHop TrimSpace (resp_Header resp)) (rwHeader e);
          tr1 = tr @ [Upgrade h] in
      case upgradeErr e of
        Some err \<Rightarrow>
          andThen (logf p ''websocket: Error while upgrading connection : %v'' [ArgErr err] tr1)
            (\<lambda>tr2. (Returned, tr2))
      | None \<Rightarrow> relay p e tr1)"

text \<open>
  The arguments of the dial, read from the store: \<^verbatim>\<open>outReq.URL.String()\<close> (the URL object
  stands for its string) and \<^verbatim>\<open>outReq.Header\<close>.
\<close>

definition dialArgs :: "store \<Rightarrow> addr \<Rightarrow> (URL \<times> Header) option" where
  "dialArgs s outReq = do {
     q \<leftarrow> requests s outReq;
     u \<leftarrow> req_URL q;
     x \<leftarrow> urls s u;
     h \<leftarrow> read_Header s (req_Header q);
     Some (x, h)
   }"

definition ServeHTTP ::
  "(string \<Rightarrow> string) \<Rightarrow> ReverseProxy \<Rightarrow> env \<Rightarrow> addr \<Rightarrow> store \<Rightarrow> outcome \<times> event list" where
  "ServeHTTP TrimSpace p e req s =
     (case buildOutReq (case Director p of None \<Rightarrow> (\<lambda>rq s'. None) | Some d \<Rightarrow> d) req s of
        None \<Rightarrow> (Panicked, [])
      | Some (outReq, s') \<Rightarrow>
          (case dialArgs s' outReq of
             None \<Rightarrow> (Panicked, [])
           | Some (x, h) \<Rightarrow>
               (case dial e of
                  DialError err resp \<Rightarrow>
                    (case requests s' req of
                       None \<Rightarrow> (Panicked, [DialContext (Dialer p = None) x h])
                     | Some r \<Rightarrow> dialFailed p e (req_Host r) err resp [DialContext (Dialer p = None) x h])
                | Connected resp \<Rightarrow>
                    upgradeAndRelay TrimSpace p e resp [DialContext (Dialer p = None) x h])))"

section \<open>Auxiliary notions for the statements\<close>

text \<open>What the loop over \<^verbatim>\<open>WebsocketDialHeaders\<close> leaves of the copy of the inbound headers.\<close>

definition outHeader :: "Header \<Rightarrow> Header" where
  "outHeader hs = delHeaders WebsocketDialHeaders (blankUserAgent (copyHeader [] hs))"


text \<open>A trace logs an error when a log line, on either logger, has it as an argument.\<close>

fun logs :: "error \<Rightarrow> event \<Rightarrow> bool" where
  "logs err (StdLogPrintf format args) = (ArgErr err \<in> set args)"
| "logs err (LoggerPrintf format args) = (ArgErr err \<in> set args)"
| "logs err ev = False"

definition logged :: "error \<Rightarrow> event list \<Rightarrow> bool" where
  "logged err tr = list_ex (logs err) tr"

text \<open>
  Stripping all slashes at the join point: \<open>a\<close> without its trailing slashes,
  \<open>b\<close> without its leading slashes, and exactly one slash between them.
\<close>

definition isSlash :: "char \<Rightarrow> bool" where
  "isSlash c = (c = CHR ''/'')"

definition trimRightSlashes :: "string \<Rightarrow> string" where
  "trimRightSlashes a = rev (dropWhile isSlash (rev a))"

definition trimLeftSlashes :: "string \<Rightarrow> string" where
  "trimLeftSlashes b = dropWhile isSlash b"

definition spec_join :: "string \<Rightarrow> string \<Rightarrow> string" where
  "spec_join a b = trimRightSlashes a @ ''/'' @ trimLeftSlashes b"

text \<open>Removing one trailing or one leading slash, if there is one.\<close>

definition dropTrailingSlash :: "string \<Rightarrow> string" where
  "dropTrailingSlash a = (if HasSuffix_slash a then butlast a else a)"

definition dropLeadingSlash :: "string \<Rightarrow> string" where
  "dropLeadingSlash b = (if HasPrefix_slash b then tl b else b)"

subsection \<open>A concrete run\<close>

text \<open>
  A store with an inbound request at address 0, its URL at 1 and its headers at 2, and the
  target URL of the proxy at 3; a proxy made by \<^verbatim>\<open>NewSingleHostReverseProxy\<close> with a logger
  set; collaborators that dial and upgrade successfully and report \<open>err\<close> first.
\<close>

definition example_request :: Request where
  "example_request = \<lparr>req_URL = Some 1, req_Header = Some 2, req_Host = ''proxy.example''\<rparr>"

definition example_URL :: URL where
  "example_URL = \<lparr>Scheme = '''', Host = '''', Path = ''/chat'', RawQuery = ''room=1''\<rparr>"

definition example_target :: URL where
  "example_target = \<lparr>Scheme = ''http'', Host = ''backend:8080'', Path = ''/ws/'', RawQuery = ''v=2''\<rparr>"

definition example_store :: "Header \<Rightarrow> store" where
  "example_store h =
     \<lparr>requests = Map.empty(0 \<mapsto> example_request),
      urls = Map.empty(1 \<mapsto> example_URL, 3 \<mapsto> example_target),
      headers = Map.empty(2 \<mapsto> h),
      next_addr = 4\<rparr>"

definition example_proxy :: ReverseProxy where
  "example_proxy =
     \<lparr>Director = Some (director 3 ''v=2''), Dialer = None,
      WebsocketConnectionClosedHook = Some (), ErrorHandler = None, Logger = Some ()\<rparr>"

definition example_env :: "error option \<Rightarrow> (channel \<times> error) option \<Rightarrow> env" where
  "example_env upgradeError first =
     \<lparr>dial = Connected \<lparr>StatusCode = 101, Status = ''101 Switching Protocols'',
                          resp_Header = [(''Upgrade'', [''websocket'']), (''Connection'', [''Upgrade''])]\<rparr>,
      hijacker = True, hijackErr = None, writeErr = None, rwHeader = [],
      upgradeErr = upgradeError, firstErr = first\<rparr>"

section \<open>Properties of the header functions\<close>

lemma canonical_hopHeaders: "n \<in> set hopHeaders \<Longrightarrow> CanonicalMIMEHeaderKey n = n"
  unfolding hopHeaders_def by (auto; code_simp)

lemma canonical_WebsocketDialHeaders:
  "n \<in> set WebsocketDialHeaders \<Longrightarrow> CanonicalMIMEHeaderKey n = n"
  unfolding WebsocketDialHeaders_def by (auto; code_simp)

lemma map_of_Header_Del:
  "map_of (Header_Del h m) k = (if k = CanonicalMIMEHeaderKey m then None else map_of h k)"
  by (simp add: Header_Del_def delete_key_def delete_conv')

lemma Get_Del_same: "Header_Get (Header_Del h n) n = ''''"
  by (simp add: Header_Get_def index_def map_of_Header_Del)

lemma Get_Del_empty: "Header_Get h n = '''' \<Longrightarrow> Header_Get (Header_Del h m) n = ''''"
  by (simp add: Header_Get_def index_def map_of_Header_Del)

lemma Get_delIfValue_same: "Header_Get (delIfValue n h) n = ''''"
  by (simp add: delIfValue_def Get_Del_same)

lemma Get_delIfValue_empty:
  "Header_Get h n = '''' \<Longrightarrow> Header_Get (delIfValue m h) n = ''''"
  by (simp add: delIfValue_def Get_Del_empty)

lemma Get_delHeaders_empty:
  "Header_Get h n = '''' \<Longrightarrow> Header_Get (delHeaders ns h) n = ''''"
  unfolding delHeaders_def
  by (induction ns arbitrary: h) (simp_all add: Get_delIfValue_empty)

text \<open>After the loop, \<^verbatim>\<open>Get\<close> returns the empty string for every name of the list.\<close>

lemma Get_delHeaders: "n \<in> set ns \<Longrightarrow> Header_Get (delHeaders ns h) n = ''''"
proof (induction ns arbitrary: h)
  case Nil
  then show ?case by simp
next
  case (Cons m ns)
  show ?case
  proof (cases "n = m")
    case True
    have "Header_Get (delHeaders ns (delIfValue m h)) m = ''''"
      by (rule Get_delHeaders_empty) (rule Get_delIfValue_same)
    then show ?thesis using True by (simp add: delHeaders_def)
  next
    case False
    with Cons.prems have "n \<in> set ns" by simp
    from Cons.IH [OF this] show ?thesis by (simp add: delHeaders_def)
  qed
qed

text \<open>The loop changes nothing when \<^verbatim>\<open>Get\<close> is already empty for every name.\<close>

lemma delHeaders_id: "(\<forall>n \<in> set ns. Header_Get h n = '''') \<Longrightarrow> delHeaders ns h = h"
  unfolding delHeaders_def
  by (induction ns arbitrary: h) (simp_all add: delIfValue_def)

lemma removeConnectionHeaders_id:
  "Header_Get h ''Connection'' = '''' \<Longrightarrow> removeConnectionHeaders t h = h"
  by (simp add: removeConnectionHeaders_def)

text \<open>Both passes only delete whole entries: a key that is left has the values it had.\<close>

lemma map_of_fold_Del:
  "map_of (fold (\<lambda>f h'. if t f \<noteq> [] then Header_Del h' (t f) else h') fs h) k = None
   \<or> map_of (fold (\<lambda>f h'. if t f \<noteq> [] then Header_Del h' (t f) else h') fs h) k = map_of h k"
proof (induction fs arbitrary: h)
  case Nil
  show ?case by simp
next
  case (Cons f fs)
  show ?case using Cons.IH [of "if t f \<noteq> [] then Header_Del h (t f) else h"]
    by (auto simp: map_of_Header_Del split: if_splits)
qed

lemma map_of_removeConnectionHeaders:
  "map_of (removeConnectionHeaders t h) k = None
   \<or> map_of (removeConnectionHeaders t h) k = map_of h k"
proof (cases "Header_Get h ''Connection'' = []")
  case True
  then show ?thesis by (simp add: removeConnectionHeaders_def)
next
  case False
  then have "removeConnectionHeaders t h =
    fold (\<lambda>f h'. if t f \<noteq> [] then Header_Del h' (t f) else h')
      (Split (CHR '','') (Header_Get h ''Connection'')) h"
    by (simp add: removeConnectionHeaders_def Let_def)
  then show ?thesis using map_of_fold_Del [of t _ h k] by simp
qed

lemma map_of_delHeaders:
  "map_of (delHeaders ns h) k = None \<or> map_of (delHeaders ns h) k = map_of h k"
proof (induction ns arbitrary: h)
  case Nil
  show ?case by (simp add: delHeaders_def)
next
  case (Cons n ns)
  show ?case using Cons.IH [of "delIfValue n h"]
    by (auto simp: delHeaders_def delIfValue_def map_of_Header_Del split: if_splits)
qed

lemma map_of_stripHopByHop:
  "map_of (stripHopByHop t h) k = None \<or> map_of (stripHopByHop t h) k = map_of h k"
  unfolding stripHopByHop_def
  using map_of_delHeaders [of hopHeaders "removeConnectionHeaders t h" k]
    map_of_removeConnectionHeaders [of t h k]
  by auto

lemma Get_stripHopByHop: "n \<in> set hopHeaders \<Longrightarrow> Header_Get (stripHopByHop t h) n = ''''"
  unfolding stripHopByHop_def by (rule Get_delHeaders)

subsection \<open>Stripping the backend's response headers\<close>

text \<open>
  Claim C5, as stated, fails: a hop-by-hop header whose first value is the empty string is
  still present after the stripping step, because the loop skips every name for which
  \<^verbatim>\<open>Get\<close> returns the empty string.
\<close>

theorem strip_keeps_empty_valued_hop_header:
  "present (stripHopByHop asciiTrimSpace [(''Keep-Alive'', [''''])]) ''Keep-Alive''"
  by code_simp

text \<open>
  Claim C5, amended: after the stripping step \<^verbatim>\<open>Get\<close> returns the empty string for every
  hop-by-hop header name, in any casing of the name; and a hop-by-hop header is still
  present only if it was present before with no value or with the empty string as its
  first value.
\<close>

theorem strip_removes_valued_hop_headers:
  assumes "n \<in> set hopHeaders"
  shows "(\<forall>k. CanonicalMIMEHeaderKey k = n \<longrightarrow> Header_Get (stripHopByHop t h) k = '''') \<and>
         (present (stripHopByHop t h) n \<longrightarrow> present h n \<and> Header_Get h n = '''')"
proof -
  have c: "CanonicalMIMEHeaderKey n = n" using assms by (rule canonical_hopHeaders)
  have g: "Header_Get (stripHopByHop t h) n = ''''" using assms by (rule Get_stripHopByHop)
  have 1: "\<forall>k. CanonicalMIMEHeaderKey k = n \<longrightarrow> Header_Get (stripHopByHop t h) k = ''''"
    using g c by (simp add: Header_Get_def)
  have 2: "present h n \<and> Header_Get h n = ''''" if p: "present (stripHopByHop t h) n"
  proof -
    from p have "map_of (stripHopByHop t h) n \<noteq> None" by (simp add: present_def)
    with map_of_stripHopByHop [of t h n] have "map_of (stripHopByHop t h) n = map_of h n"
      by blast
    with p g c show ?thesis by (simp add: present_def Header_Get_def index_def)
  qed
  from 1 2 show ?thesis by blast
qed

theorem strip_removes_valued_hop_headers_witness:
  "''Keep-Alive'' \<in> set hopHeaders \<and>
   Header_Get (stripHopByHop asciiTrimSpace
     [(''Keep-Alive'', [''timeout=5'']), (''Content-Type'', [''text/plain''])]) ''keep-alive'' = '''' \<and>
   \<not> present (stripHopByHop asciiTrimSpace
     [(''Keep-Alive'', [''timeout=5'']), (''Content-Type'', [''text/plain''])]) ''Keep-Alive''"
proof -
  have m: "''Keep-Alive'' \<in> set hopHeaders" by (simp add: hopHeaders_def)
  have c: "CanonicalMIMEHeaderKey ''keep-alive'' = ''Keep-Alive''" by code_simp
  have v: "Header_Get [(''Keep-Alive'', [''timeout=5'']), (''Content-Type'', [''text/plain''])]
             ''Keep-Alive'' \<noteq> ''''"
    by code_simp
  from strip_removes_valued_hop_headers [OF m, of asciiTrimSpace
      "[(''Keep-Alive'', [''timeout=5'']), (''Content-Type'', [''text/plain''])]"] c m v
  show ?thesis by blast
qed

text \<open>
  Claim C8: the stripping step is idempotent. For every header set, applying
  \<^verbatim>\<open>removeConnectionHeaders\<close> followed by the loop over \<^verbatim>\<open>hopHeaders\<close> a second time
  gives the header set that the first application gave.
\<close>

theorem stripHopByHop_idempotent:
  "stripHopByHop t (stripHopByHop t h) = stripHopByHop t h"
proof -
  let ?s = "stripHopByHop t h"
  have g: "\<forall>n \<in> set hopHeaders. Header_Get ?s n = ''''"
    by (simp add: Get_stripHopByHop)
  have "''Connection'' \<in> set hopHeaders" by (simp add: hopHeaders_def)
  with g have "Header_Get ?s ''Connection'' = ''''" by blast
  then have "removeConnectionHeaders t ?s = ?s" by (rule removeConnectionHeaders_id)
  then have "stripHopByHop t ?s = delHeaders hopHeaders ?s" by (simp add: stripHopByHop_def)
  also have "\<dots> = ?s" using g by (rule delHeaders_id)
  finally show ?thesis .
qed

section \<open>The outbound request\<close>

subsection \<open>Each step on the store\<close>

lemma Header_Get_Nil: "Header_Get [] n = ''''"
  by (simp add: Header_Get_def index_def)

lemma store_headers_triv: "headers s a = Some h \<Longrightarrow> s\<lparr>headers := (headers s)(a \<mapsto> h)\<rparr> = s"
  by (simp add: map_upd_triv)

lemma copyHeader_no_values:
  "list_all (\<lambda>(k, vv). vv = []) hs \<Longrightarrow> copyHeader d hs = d"
  unfolding copyHeader_def
  by (induction hs arbitrary: d) auto

lemma copyHeader_at_exact:
  assumes "headers s a = Some d" "read_Header s src = Some hs"
  shows "copyHeader_at (Some a) src s = Some (s\<lparr>headers := (headers s)(a \<mapsto> copyHeader d hs)\<rparr>)"
proof (cases "list_all (\<lambda>(k, vv). vv = []) hs")
  case True
  then show ?thesis using assms
    by (simp add: copyHeader_at_def copyHeader_no_values store_headers_triv)
next
  case False
  then show ?thesis using assms
    by (simp add: copyHeader_at_def read_Header_def write_Header_def)
qed

text \<open>
  The Director writes the URL object of the request and the request's own header set, and
  nothing else. When the target is the URL object of the request itself, \<open>t\<close> and \<open>x\<close>
  are the same.
\<close>

lemma director_exact:
  assumes "requests s rq = Some q" "req_URL q = Some u" "urls s u = Some x"
    "urls s target = Some t" "req_Header q = Some a" "headers s a = Some h"
  shows "director target tq rq s =
           Some (s\<lparr>urls := (urls s)(u \<mapsto> rewritten t tq x),
                   headers := (headers s)(a \<mapsto> blankUserAgent h)\<rparr>)"
proof -
  have tx: "target = u \<Longrightarrow> t = x" using assms by simp
  have hh: "(headers s)(a \<mapsto> h) = headers s" using assms by (simp add: map_upd_triv)
  show ?thesis
  proof (cases "present h ''User-Agent''")
    case True
    then have b: "blankUserAgent h = h" by (simp add: blankUserAgent_def)
    show ?thesis unfolding b hh using assms True tx
      by (cases "target = u")
         (simp_all add: director_def assign_URL_def read_Header_def rewritten_def)
  next
    case False
    then have b: "blankUserAgent h = Header_Set h ''User-Agent'' []"
      by (simp add: blankUserAgent_def)
    show ?thesis unfolding b using assms False tx
      by (cases "target = u")
         (simp_all add: director_def assign_URL_def read_Header_def write_Header_def
           rewritten_def)
  qed
qed

lemma delIfValue_at_exact:
  assumes "requests s rq = Some q" "req_Header q = Some a" "headers s a = Some h"
  shows "delIfValue_at rq n s = Some (s\<lparr>headers := (headers s)(a \<mapsto> delIfValue n h)\<rparr>)"
proof (cases "Header_Get h n = []")
  case True
  then have "delIfValue n h = h" by (simp add: delIfValue_def)
  then have "s\<lparr>headers := (headers s)(a \<mapsto> delIfValue n h)\<rparr> = s"
    using assms by (simp add: store_headers_triv)
  then show ?thesis using assms True by (simp add: delIfValue_at_def read_Header_def)
next
  case False
  then show ?thesis using assms
    by (simp add: delIfValue_at_def read_Header_def write_Header_def delIfValue_def)
qed

text \<open>On the store, the loop is the loop \<open>delHeaders\<close> on the header set of the request.\<close>

lemma foldM_delIfValue_at_exact:
  assumes "requests s rq = Some q" "req_Header q = Some a" "headers s a = Some h"
  shows "foldM (delIfValue_at rq) ns s =
           Some (s\<lparr>headers := (headers s)(a \<mapsto> delHeaders ns h)\<rparr>)"
  using assms
proof (induction ns arbitrary: s h)
  case Nil
  then show ?case by (simp add: delHeaders_def map_upd_triv)
next
  case (Cons n ns)
  let ?s1 = "s\<lparr>headers := (headers s)(a \<mapsto> delIfValue n h)\<rparr>"
  have 1: "delIfValue_at rq n s = Some ?s1"
    using Cons.prems by (rule delIfValue_at_exact)
  have 2: "foldM (delIfValue_at rq) ns ?s1 =
          Some (?s1\<lparr>headers := (headers ?s1)(a \<mapsto> delHeaders ns (delIfValue n h))\<rparr>)"
    by (rule Cons.IH) (use Cons.prems in simp_all)
  have 3: "?s1\<lparr>headers := (headers ?s1)(a \<mapsto> delHeaders ns (delIfValue n h))\<rparr> =
           s\<lparr>headers := (headers s)(a \<mapsto> delHeaders (n # ns) h)\<rparr>"
    by (cases s) (simp add: delHeaders_def)
  have "foldM (delIfValue_at rq) (n # ns) s = foldM (delIfValue_at rq) ns ?s1"
    by (simp add: 1)
  also note 2
  also note 3
  finally show ?case .
qed

lemma delIfValue_at_nil:
  "requests s rq = Some q \<Longrightarrow> req_Header q = None \<Longrightarrow> delIfValue_at rq n s = Some s"
  by (simp add: delIfValue_at_def read_Header_def Header_Get_Nil)

lemma foldM_delIfValue_at_nil:
  "requests s rq = Some q \<Longrightarrow> req_Header q = None \<Longrightarrow>
   foldM (delIfValue_at rq) ns s = Some s"
  by (induction ns) (simp_all add: delIfValue_at_nil)

lemma delIfValue_at_SomeD:
  assumes "delIfValue_at rq n s = Some s1"
  obtains q h where "requests s rq = Some q" "read_Header s (req_Header q) = Some h"
  using assms by (auto simp: delIfValue_at_def split: bind_splits)

text \<open>
  Whatever the store was before the loop: when the loop returns, the header set that the
  dial reads has no value for any name of the list.
\<close>

lemma foldM_delIfValue_at_Get:
  assumes f: "foldM (delIfValue_at rq) (m # ms) s = Some s'"
    and d: "dialArgs s' rq = Some (x, h)"
    and n: "n \<in> set (m # ms)"
  shows "Header_Get h n = ''''"
proof -
  from f obtain s1 where "delIfValue_at rq m s = Some s1"
    by (auto split: option.splits)
  then obtain q h0 where q: "requests s rq = Some q"
    and h0: "read_Header s (req_Header q) = Some h0"
    by (rule delIfValue_at_SomeD)
  show ?thesis
  proof (cases "req_Header q")
    case None
    with q have "foldM (delIfValue_at rq) (m # ms) s = Some s"
      by (rule foldM_delIfValue_at_nil)
    with f have "s' = s" by simp
    with d q None have "h = []"
      by (auto simp: dialArgs_def read_Header_def split: bind_splits)
    then show ?thesis by (simp add: Header_Get_Nil)
  next
    case (Some a)
    with h0 have a: "headers s a = Some h0" by (simp add: read_Header_def)
    from foldM_delIfValue_at_exact [OF q Some a, of "m # ms"] f
    have "s' = s\<lparr>headers := (headers s)(a \<mapsto> delHeaders (m # ms) h0)\<rparr>" by simp
    with d q Some have "h = delHeaders (m # ms) h0"
      by (auto simp: dialArgs_def read_Header_def split: bind_splits)
    with n show ?thesis by (simp only: Get_delHeaders)
  qed
qed

lemma buildOutReq_SomeD:
  assumes "buildOutReq D req s = Some (outReq, s')"
  obtains s6 where "foldM (delIfValue_at outReq) WebsocketDialHeaders s6 = Some s'"
  using assms
  by (auto simp: buildOutReq_def new_Request_def make_Header_def Let_def
      split: bind_splits prod.splits)

lemma buildOutReq_Get:
  assumes b: "buildOutReq D req s = Some (outReq, s')"
    and d: "dialArgs s' outReq = Some (x, h)"
    and k: "CanonicalMIMEHeaderKey k \<in> set WebsocketDialHeaders"
  shows "Header_Get h k = ''''"
proof -
  from b obtain s6 where f: "foldM (delIfValue_at outReq) WebsocketDialHeaders s6 = Some s'"
    by (rule buildOutReq_SomeD)
  have w: "WebsocketDialHeaders = ''Upgrade'' # tl WebsocketDialHeaders"
    by (simp add: WebsocketDialHeaders_def)
  from f d k have "Header_Get h (CanonicalMIMEHeaderKey k) = ''''"
    by (subst (asm) (1 2) w) (rule foldM_delIfValue_at_Get)
  moreover have "CanonicalMIMEHeaderKey (CanonicalMIMEHeaderKey k) = CanonicalMIMEHeaderKey k"
    using k by (rule canonical_WebsocketDialHeaders)
  ultimately show ?thesis by (simp add: Header_Get_def)
qed

subsection \<open>The whole construction, with the Director of NewSingleHostReverseProxy\<close>

lemma wf_store_requests: "wf_store s \<Longrightarrow> requests s a = Some r \<Longrightarrow> a < next_addr s"
  unfolding wf_store_def by (metis not_le option.distinct(1))

lemma wf_store_headers: "wf_store s \<Longrightarrow> headers s a = Some h \<Longrightarrow> a < next_addr s"
  unfolding wf_store_def by (metis not_le option.distinct(1))

lemma read_Header_allocated:
  "wf_store s \<Longrightarrow> read_Header s ref = Some hs \<Longrightarrow> ref \<noteq> Some a \<or> a < next_addr s"
  by (cases ref) (auto simp: read_Header_def dest: wf_store_headers)

lemma buildOutReq_exact_fields:
  fixes R U H n
  defines "s \<equiv> \<lparr>requests = R, urls = U, headers = H, next_addr = n\<rparr>"
  assumes wf: "wf_store s"
    and r: "R req = Some r"
    and u: "req_URL r = Some u" "U u = Some x"
    and t: "U target = Some t"
    and hs: "read_Header s (req_Header r) = Some hs"
  shows "buildOutReq (director target tq) req s =
     Some (n, \<lparr>requests = R(n \<mapsto> r\<lparr>req_Header := Some (Suc n)\<rparr>),
               urls = U(u \<mapsto> rewritten t tq x),
               headers = H(Suc n \<mapsto> outHeader hs),
               next_addr = Suc (Suc n)\<rparr>)"
proof -
  let ?q = "r\<lparr>req_Header := Some (Suc n)\<rparr>"
  let ?s4 = "\<lparr>requests = R(n \<mapsto> ?q), urls = U, headers = H(Suc n \<mapsto> []),
              next_addr = Suc (Suc n)\<rparr>"
  let ?s5 = "\<lparr>requests = R(n \<mapsto> ?q), urls = U, headers = H(Suc n \<mapsto> copyHeader [] hs),
              next_addr = Suc (Suc n)\<rparr>"
  let ?s6 = "\<lparr>requests = R(n \<mapsto> ?q), urls = U(u \<mapsto> rewritten t tq x),
              headers = H(Suc n \<mapsto> blankUserAgent (copyHeader [] hs)),
              next_addr = Suc (Suc n)\<rparr>"
  let ?s7 = "\<lparr>requests = R(n \<mapsto> ?q), urls = U(u \<mapsto> rewritten t tq x),
              headers = H(Suc n \<mapsto> outHeader hs), next_addr = Suc (Suc n)\<rparr>"
  have ne: "req \<noteq> n" using wf r wf_store_requests [of s req r] by (auto simp: s_def)
  have hne: "req_Header r \<noteq> Some (Suc n)"
    using read_Header_allocated [OF wf hs, of "Suc n"] by (auto simp: s_def)
  have rd: "read_Header ?s4 (req_Header r) = Some hs"
    using hs hne by (cases "req_Header r") (auto simp: read_Header_def s_def)
  have "copyHeader_at (Some (Suc n)) (req_Header r) ?s4 =
          Some (?s4\<lparr>headers := (headers ?s4)(Suc n \<mapsto> copyHeader [] hs)\<rparr>)"
    by (rule copyHeader_at_exact) (simp_all add: rd)
  then have c: "copyHeader_at (Some (Suc n)) (req_Header r) ?s4 = Some ?s5" by simp
  have "director target tq n ?s5 =
          Some (?s5\<lparr>urls := (urls ?s5)(u \<mapsto> rewritten t tq x),
                    headers := (headers ?s5)(Suc n \<mapsto> blankUserAgent (copyHeader [] hs))\<rparr>)"
    by (rule director_exact [where q = ?q]) (simp_all add: u t)
  then have d: "director target tq n ?s5 = Some ?s6" by simp
  have "foldM (delIfValue_at n) WebsocketDialHeaders ?s6 =
          Some (?s6\<lparr>headers := (headers ?s6)(Suc n \<mapsto> outHeader hs)\<rparr>)"
    unfolding outHeader_def
    by (rule foldM_delIfValue_at_exact [where q = ?q]) simp_all
  then have l: "foldM (delIfValue_at n) WebsocketDialHeaders ?s6 = Some ?s7" by simp
  show ?thesis
    using ne r c d l
    by (simp add: buildOutReq_def new_Request_def make_Header_def s_def)
qed

text \<open>
  For an inbound request that is allocated, with a URL and with headers that are nil or
  allocated, the construction returns, and this is the store it leaves.
\<close>

lemma buildOutReq_exact:
  assumes wf: "wf_store s"
    and r: "requests s req = Some r"
    and u: "req_URL r = Some u" "urls s u = Some x"
    and t: "urls s target = Some t"
    and hs: "read_Header s (req_Header r) = Some hs"
  shows "buildOutReq (director target tq) req s =
     Some (next_addr s,
           \<lparr>requests = (requests s)(next_addr s \<mapsto> r\<lparr>req_Header := Some (Suc (next_addr s))\<rparr>),
            urls = (urls s)(u \<mapsto> rewritten t tq x),
            headers = (headers s)(Suc (next_addr s) \<mapsto> outHeader hs),
            next_addr = Suc (Suc (next_addr s))\<rparr>)"
proof (cases s)
  case (fields R U H n)
  with assms buildOutReq_exact_fields [of R U H n req r u x target t hs tq]
  show ?thesis by simp
qed

lemma wf_example_store: "wf_store (example_store h)"
  by (simp add: wf_store_def example_store_def)

lemma example_request_0: "requests (example_store h) 0 = Some example_request"
  by (simp add: example_store_def)

lemma example_request_URL: "req_URL example_request = Some 1"
  by (simp add: example_request_def)

lemma example_URL_1: "urls (example_store h) 1 = Some example_URL"
  by (simp add: example_store_def)

lemma example_target_3: "urls (example_store h) 3 = Some example_target"
  by (simp add: example_store_def)

lemma example_Header_2: "read_Header (example_store h) (req_Header example_request) = Some h"
  by (simp add: example_store_def example_request_def read_Header_def)

text \<open>The proxy of the example is the one that NewSingleHostReverseProxy makes, with a logger and a hook set.\<close>

lemma example_proxy_NewSingleHostReverseProxy:
  "NewSingleHostReverseProxy (example_store h) 3 =
     Some (example_proxy\<lparr>WebsocketConnectionClosedHook := None, Logger := None\<rparr>)"
  by (simp add: NewSingleHostReverseProxy_def example_store_def example_target_def
      example_proxy_def)

subsection \<open>The dial is the only call of the dialer\<close>

lemma logf_DialContext:
  "DialContext b x h \<in> set (snd (logf p f args tr)) \<longleftrightarrow> DialContext b x h \<in> set tr"
  by (auto simp: logf_def split: option.splits)

lemma andThen_DialContext:
  assumes "\<And>tr'. DialContext b x h \<in> set (snd (k tr')) \<longleftrightarrow> DialContext b x h \<in> set tr'"
  shows "DialContext b x h \<in> set (snd (andThen (logf p f args tr) k)) \<longleftrightarrow>
         DialContext b x h \<in> set tr"
  using assms logf_DialContext [of b x h p f args tr]
  by (cases "logf p f args tr") (auto simp: andThen_def)

lemma getErrorHandler_DialContext:
  "DialContext b x h \<in> set (snd (getErrorHandler p err tr)) \<longleftrightarrow> DialContext b x h \<in> set tr"
  by (cases "ErrorHandler p")
     (simp_all add: getErrorHandler_def defaultErrorHandler_def andThen_DialContext)

lemma deferred_DialContext:
  "DialContext b x h \<notin> set ds \<Longrightarrow>
   DialContext b x h \<in> set (snd (deferred ds r)) \<longleftrightarrow> DialContext b x h \<in> set (snd r)"
  by (cases r) (simp add: deferred_def)

lemma dialFailed_DialContext:
  "DialContext b x h \<in> set (snd (dialFailed p e host err resp tr)) \<longleftrightarrow>
   DialContext b x h \<in> set tr"
  by (simp add: dialFailed_def andThen_DialContext getErrorHandler_DialContext
      deferred_DialContext split: option.splits)

lemma relay_DialContext:
  "DialContext b x h \<in> set (snd (relay p e tr)) \<longleftrightarrow> DialContext b x h \<in> set tr"
  by (simp add: relay_def andThen_DialContext deferred_DialContext teardown_def
      split: option.splits prod.splits)

lemma upgradeAndRelay_DialContext:
  "DialContext b x h \<in> set (snd (upgradeAndRelay t p e resp tr)) \<longleftrightarrow>
   DialContext b x h \<in> set tr"
  by (simp add: upgradeAndRelay_def Let_def andThen_DialContext relay_DialContext
      split: option.splits)

text \<open>The arguments of the dial are read from the store that the construction leaves.\<close>

lemma ServeHTTP_DialContext:
  assumes "DialContext b x h \<in> set (snd (ServeHTTP t p e req s))"
  obtains D outReq s' where "buildOutReq D req s = Some (outReq, s')"
    "dialArgs s' outReq = Some (x, h)"
  using assms
  by (auto simp: ServeHTTP_def dialFailed_DialContext upgradeAndRelay_DialContext
      split: option.splits prod.splits dial_result.splits)

subsection \<open>The headers handed to the dialer\<close>

text \<open>
  Claim C4, as stated, fails: an inbound \<^verbatim>\<open>Upgrade\<close> header whose value is the empty string
  is copied to the outbound request and is still there when the dialer is called, because
  the loop over \<^verbatim>\<open>WebsocketDialHeaders\<close> skips every name for which \<^verbatim>\<open>Get\<close> returns the
  empty string.
\<close>

theorem dial_keeps_empty_valued_dial_header:
  "hd (snd (ServeHTTP asciiTrimSpace example_proxy (example_env None None) 0
         (example_store [(''Upgrade'', [''''])]))) =
     DialContext True
       \<lparr>Scheme = ''ws'', Host = ''backend:8080'', Path = ''/ws/chat'', RawQuery = ''v=2&room=1''\<rparr>
       [(''Upgrade'', ['''']), (''User-Agent'', [''''])] \<and>
   present [(''Upgrade'', ['''']), (''User-Agent'', [''''])] ''Upgrade''"
  by code_simp

text \<open>
  Claim C4, amended: for every inbound request and every Director, in the header set that
  ServeHTTP hands to the dialer \<^verbatim>\<open>Get\<close> returns the empty string for every name of the
  WebSocket Dial Header List, in any casing of the name. A dial header that the inbound
  request supplied with a non-empty first value is not there; one whose first value is
  the empty string is not deleted.
\<close>

theorem dial_headers_have_no_value:
  assumes "DialContext b x h \<in> set (snd (ServeHTTP t p e req s))"
    and "CanonicalMIMEHeaderKey k \<in> set WebsocketDialHeaders"
  shows "Header_Get h k = ''''"
proof -
  from assms(1) obtain D outReq s' where "buildOutReq D req s = Some (outReq, s')"
    and "dialArgs s' outReq = Some (x, h)"
    by (rule ServeHTTP_DialContext)
  then show ?thesis using assms(2) by (rule buildOutReq_Get)
qed

theorem dial_headers_have_no_value_witness:
  "DialContext True
     \<lparr>Scheme = ''ws'', Host = ''backend:8080'', Path = ''/ws/chat'', RawQuery = ''v=2&room=1''\<rparr>
     [(''Cookie'', [''a=b'']), (''User-Agent'', [''''])]
   \<in> set (snd (ServeHTTP asciiTrimSpace example_proxy (example_env None None) 0
         (example_store [(''upgrade'', [''websocket'']), (''Sec-WebSocket-Key'', [''abc'']),
                         (''Cookie'', [''a=b''])]))) \<and>
   CanonicalMIMEHeaderKey ''sec-websocket-key'' \<in> set WebsocketDialHeaders \<and>
   Header_Get [(''Cookie'', [''a=b'']), (''User-Agent'', [''''])] ''sec-websocket-key'' = ''''"
proof -
  have 1: "DialContext True
     \<lparr>Scheme = ''ws'', Host = ''backend:8080'', Path = ''/ws/chat'', RawQuery = ''v=2&room=1''\<rparr>
     [(''Cookie'', [''a=b'']), (''User-Agent'', [''''])]
   \<in> set (snd (ServeHTTP asciiTrimSpace example_proxy (example_env None None) 0
         (example_store [(''upgrade'', [''websocket'']), (''Sec-WebSocket-Key'', [''abc'']),
                         (''Cookie'', [''a=b''])])))"
    by code_simp
  have 2: "CanonicalMIMEHeaderKey ''sec-websocket-key'' \<in> set WebsocketDialHeaders"
    by code_simp
  from dial_headers_have_no_value [OF 1 2] 1 2 show ?thesis by blast
qed

subsection \<open>The inbound request's headers\<close>

text \<open>
  Claim C7: building the outbound request never mutates the inbound request's header set.
  For an inbound request that is allocated in a well-formed store, with a URL, and with
  headers \<open>hs\<close> (nil or allocated), the construction with the Director of
  NewSingleHostReverseProxy returns, and afterwards the inbound request is the struct it
  was, its header set is \<open>hs\<close>, and every header set that was allocated before is
  unchanged: all writes go to the header set made for the outbound request.
\<close>

theorem inbound_headers_unchanged:
  assumes wf: "wf_store s"
    and r: "requests s req = Some r"
    and u: "req_URL r = Some u" "urls s u = Some x"
    and t: "urls s target = Some t"
    and hs: "read_Header s (req_Header r) = Some hs"
  shows "\<exists>outReq s'. buildOutReq (director target tq) req s = Some (outReq, s') \<and>
           requests s' req = Some r \<and> read_Header s' (req_Header r) = Some hs \<and>
           (\<forall>a h. headers s a = Some h \<longrightarrow> headers s' a = Some h)"
proof -
  let ?out = "next_addr s"
  let ?s' = "\<lparr>requests = (requests s)(next_addr s \<mapsto> r\<lparr>req_Header := Some (Suc (next_addr s))\<rparr>),
            urls = (urls s)(u \<mapsto> rewritten t tq x),
            headers = (headers s)(Suc (next_addr s) \<mapsto> outHeader hs),
            next_addr = Suc (Suc (next_addr s))\<rparr>"
  have b: "buildOutReq (director target tq) req s = Some (?out, ?s')"
    using assms by (rule buildOutReq_exact)
  have "req \<noteq> next_addr s" using wf r by (auto dest: wf_store_requests)
  with r have 1: "requests ?s' req = Some r" by simp
  have fr: "headers ?s' a = Some h" if "headers s a = Some h" for a h
    using wf that by (auto dest: wf_store_headers)
  have 2: "read_Header ?s' (req_Header r) = Some hs"
  proof (cases "req_Header r")
    case None
    with hs show ?thesis by (simp add: read_Header_def)
  next
    case (Some a)
    with hs have "headers s a = Some hs" by (simp add: read_Header_def)
    then have "headers ?s' a = Some hs" by (rule fr)
    with Some show ?thesis by (simp add: read_Header_def)
  qed
  from b 1 2 fr show ?thesis by blast
qed

theorem inbound_headers_unchanged_witness:
  "wf_store (example_store [(''Upgrade'', [''websocket'']), (''Cookie'', [''a=b''])]) \<and>
   (\<exists>outReq s'.
      buildOutReq (director 3 ''v=2'') 0
        (example_store [(''Upgrade'', [''websocket'']), (''Cookie'', [''a=b''])]) = Some (outReq, s') \<and>
      requests s' 0 = Some example_request \<and>
      read_Header s' (Some 2) = Some [(''Upgrade'', [''websocket'']), (''Cookie'', [''a=b''])])"
proof -
  let ?h = "[(''Upgrade'', [''websocket'']), (''Cookie'', [''a=b''])]"
  have 2: "req_Header example_request = Some 2" by (simp add: example_request_def)
  from inbound_headers_unchanged [OF wf_example_store [of ?h] example_request_0 [of ?h]
      example_request_URL example_URL_1 [of ?h] example_target_3 [of ?h] example_Header_2 [of ?h],
      of "''v=2''"]
    wf_example_store [of ?h]
  show ?thesis unfolding 2 by blast
qed

subsection \<open>The inbound request's URL\<close>

text \<open>
  Claim C10: the outbound request shares the inbound request's URL object. For an inbound
  request as above, after the construction the outbound request is a struct of its own
  whose URL field is the pointer of the inbound request's URL field, and the URL object
  behind it holds what the Director of NewSingleHostReverseProxy wrote: the scheme of the
  target (with http and https switched to ws and wss), the host of the target, the joined
  path and the joined query. So the rewrite is seen through the inbound request.
\<close>

theorem inbound_URL_is_rewritten:
  assumes wf: "wf_store s"
    and r: "requests s req = Some r"
    and u: "req_URL r = Some u" "urls s u = Some x"
    and t: "urls s target = Some t"
    and hs: "read_Header s (req_Header r) = Some hs"
  shows "\<exists>outReq s' q. buildOutReq (director target tq) req s = Some (outReq, s') \<and>
           outReq \<noteq> req \<and> requests s' outReq = Some q \<and> requests s' req = Some r \<and>
           req_URL q = Some u \<and> req_URL r = Some u \<and>
           urls s' u =
             Some (x\<lparr>Scheme := switchScheme (Scheme t), Host := Host t,
                      Path := singleJoiningSlash (Path t) (Path x),
                      RawQuery := joinQuery tq (RawQuery x)\<rparr>)"
proof -
  have ne: "req \<noteq> next_addr s" using wf r by (auto dest: wf_store_requests)
  show ?thesis
    unfolding buildOutReq_exact [OF assms]
    using ne r u by (auto simp: rewritten_def)
qed

theorem inbound_URL_is_rewritten_witness:
  "wf_store (example_store []) \<and>
   (\<exists>outReq s' q.
      buildOutReq (director 3 ''v=2'') 0 (example_store []) = Some (outReq, s') \<and>
      outReq \<noteq> 0 \<and> requests s' outReq = Some q \<and> requests s' 0 = Some example_request \<and>
      req_URL q = Some 1 \<and> req_URL example_request = Some 1 \<and>
      urls s' 1 =
        Some \<lparr>Scheme = ''ws'', Host = ''backend:8080'', Path = ''/ws/chat'',
               RawQuery = ''v=2&room=1''\<rparr>)"
proof -
  have e: "example_URL\<lparr>Scheme := switchScheme (Scheme example_target), Host := Host example_target,
             Path := singleJoiningSlash (Path example_target) (Path example_URL),
             RawQuery := joinQuery ''v=2'' (RawQuery example_URL)\<rparr> =
           \<lparr>Scheme = ''ws'', Host = ''backend:8080'', Path = ''/ws/chat'',
             RawQuery = ''v=2&room=1''\<rparr>"
    by code_simp
  from inbound_URL_is_rewritten [OF wf_example_store [of "[]"] example_request_0 [of "[]"]
      example_request_URL example_URL_1 [of "[]"] example_target_3 [of "[]"]
      example_Header_2 [of "[]"], of "''v=2''"]
    wf_example_store [of "[]"]
  show ?thesis unfolding e by blast
qed

section \<open>The relay loop: close-code translation\<close>





text \<open>
  A formatted close payload carries the code and the text: reading it back gives both,
  for every code of 16 bits other than "no status received".
\<close>

lemma parse_FormatCloseMessage:
  assumes "0 \<le> c" "c < 65536" "c \<noteq> 1005"
  shows "parseCloseMessage (FormatCloseMessage c t) = Some (c, t)"
proof -
  have 1: "unat (word_of_int c :: 16 word) = nat c"
    using assms by (simp add: unat_eq_nat_uint uint_word_of_int)
  have 2: "unat (drop_bit 8 (word_of_int c :: 16 word)) = nat c div 256"
    using 1 by (simp add: drop_bit_eq_div unat_div)
  have 3: "nat c div 256 < 256" using assms by simp
  have "byteval (char_of (nat c div 256)) = nat c div 256"
    using 3 by (simp add: byteval_def)
  moreover have "byteval (char_of (nat c)) = nat c mod 256"
    by (simp add: byteval_def)
  moreover have "int (nat c div 256) * 256 + int (nat c mod 256) = c"
  proof -
    from assms obtain n where c: "c = int n" using nonneg_int_cases by blast
    have "int (n div 256 * 256 + n mod 256) = int n" by simp
    then have "int (n div 256) * 256 + int (n mod 256) = int n"
      by (simp only: of_nat_add of_nat_mult of_nat_numeral)
    then show ?thesis unfolding c nat_int .
  qed
  ultimately show ?thesis using assms 1 2
    by (simp add: parseCloseMessage_def FormatCloseMessage_def PutUint16_def
        CloseNoStatusReceived_def)
qed



section \<open>ServeHTTP: logging and teardown\<close>

text \<open>
  Claim C3 fails on the code. With \<^verbatim>\<open>Logger\<close> nil, \<^verbatim>\<open>logf\<close> writes the line to the default
  logger and then, with no \<^verbatim>\<open>return\<close> or \<^verbatim>\<open>else\<close> after the fallback, calls
  \<^verbatim>\<open>p.Logger.Printf\<close> on the nil interface value: the call panics.
\<close>

theorem logf_nil_Logger_panics:
  "logf (p\<lparr>Logger := None\<rparr>) format args tr = (False, tr @ [StdLogPrintf format args])"
  by (simp add: logf_def)

lemma relay_logged:
  assumes "firstErr e = Some (c, err)" "\<not> logged err tr"
  shows "logged err (snd (relay p e tr)) \<longleftrightarrow>
         (case err of CloseError code text d \<Rightarrow> code = 1006 | PlainError d \<Rightarrow> True)"
  using assms
  by (cases err; cases "Logger p")
     (auto simp: relay_def logCondition_def CloseAbnormalClosure_def andThen_def deferred_def
        logf_def logged_def teardown_def split: option.splits)

text \<open>
  Claim C2, as stated, fails both ways: a close error with the code "normal closure"
  (1000) is not logged, and a close error with the code "abnormal closure" (1006) is.
\<close>

theorem normal_closure_not_logged_abnormal_logged:
  "\<not> logged (CloseError 1000 ''bye'' ''websocket: close 1000 (normal): bye'')
       (snd (ServeHTTP asciiTrimSpace example_proxy
          (example_env None
             (Some (errClient, CloseError 1000 ''bye'' ''websocket: close 1000 (normal): bye'')))
          0 (example_store []))) \<and>
   logged (CloseError 1006 ''unexpected EOF'' ''websocket: close 1006 (abnormal closure): unexpected EOF'')
       (snd (ServeHTTP asciiTrimSpace example_proxy
          (example_env None
             (Some (errClient, CloseError 1006 ''unexpected EOF''
                ''websocket: close 1006 (abnormal closure): unexpected EOF'')))
          0 (example_store [])))"
  by code_simp

text \<open>
  Claim C2, amended: when the dial and the upgrade succeed and the first relay direction
  reports the error \<open>err\<close>, ServeHTTP logs \<open>err\<close> exactly when \<open>err\<close> is not a close
  error or is a close error whose code is "abnormal closure" (1006); a close error with
  any other code, normal closure included, is not logged. (The trace is empty only when
  the construction of the outbound request panics, before the dial.)
\<close>

theorem relay_error_logged:
  assumes "dial e = Connected resp" and "upgradeErr e = None" and "firstErr e = Some (c, err)"
    and "snd (ServeHTTP t p e req s) \<noteq> []"
  shows "logged err (snd (ServeHTTP t p e req s)) \<longleftrightarrow>
         (case err of CloseError code text d \<Rightarrow> code = 1006 | PlainError d \<Rightarrow> True)"
proof -
  from assms(4) obtain x h where
    "ServeHTTP t p e req s =
       relay p e [DialContext (Dialer p = None) x h,
                  Upgrade (copyHeader (stripHopByHop t (resp_Header resp)) (rwHeader e))]"
    using assms(1,2)
    by (auto simp: ServeHTTP_def upgradeAndRelay_def Let_def split: option.splits prod.splits)
  moreover have "\<not> logged err [DialContext (Dialer p = None) x h,
                  Upgrade (copyHeader (stripHopByHop t (resp_Header resp)) (rwHeader e))]"
    by (simp add: logged_def)
  ultimately show ?thesis using relay_logged [OF assms(3)] by simp
qed

theorem relay_error_logged_witness:
  "dial (example_env None (Some (errBackend, PlainError ''read tcp: connection reset by peer''))) =
     Connected \<lparr>StatusCode = 101, Status = ''101 Switching Protocols'',
                 resp_Header = [(''Upgrade'', [''websocket'']), (''Connection'', [''Upgrade''])]\<rparr> \<and>
   snd (ServeHTTP asciiTrimSpace example_proxy
          (example_env None (Some (errBackend, PlainError ''read tcp: connection reset by peer'')))
          0 (example_store [])) \<noteq> [] \<and>
   logged (PlainError ''read tcp: connection reset by peer'')
     (snd (ServeHTTP asciiTrimSpace example_proxy
          (example_env None (Some (errBackend, PlainError ''read tcp: connection reset by peer'')))
          0 (example_store [])))"
proof -
  let ?e = "example_env None (Some (errBackend, PlainError ''read tcp: connection reset by peer''))"
  have 1: "dial ?e = Connected \<lparr>StatusCode = 101, Status = ''101 Switching Protocols'',
                 resp_Header = [(''Upgrade'', [''websocket'']), (''Connection'', [''Upgrade''])]\<rparr>"
    by (simp add: example_env_def)
  have 2: "upgradeErr ?e = None" by (simp add: example_env_def)
  have 3: "firstErr ?e = Some (errBackend, PlainError ''read tcp: connection reset by peer'')"
    by (simp add: example_env_def)
  have 4: "snd (ServeHTTP asciiTrimSpace example_proxy ?e 0 (example_store [])) \<noteq> []"
    by code_simp
  from relay_error_logged [OF 1 2 3 4] 1 4 show ?thesis by simp
qed



section \<open>singleJoiningSlash\<close>

lemma singleJoiningSlash_drop:
  "singleJoiningSlash a b = dropTrailingSlash a @ ''/'' @ dropLeadingSlash b"
proof (cases "HasSuffix_slash a")
  case True
  then have a: "butlast a @ ''/'' = a"
    by (auto simp: HasSuffix_slash_def) (metis append_butlast_last_id)
  show ?thesis
  proof (cases "HasPrefix_slash b")
    case pb: True
    with True a show ?thesis
      by (simp add: singleJoiningSlash_def dropTrailingSlash_def dropLeadingSlash_def)
  next
    case False
    with True a show ?thesis
      by (simp add: singleJoiningSlash_def dropTrailingSlash_def dropLeadingSlash_def)
  qed
next
  case False
  show ?thesis
  proof (cases "HasPrefix_slash b")
    case True
    then have "b = CHR ''/'' # tl b" by (cases b) (auto simp: HasPrefix_slash_def)
    with True False show ?thesis
      by (simp add: singleJoiningSlash_def dropTrailingSlash_def dropLeadingSlash_def)
  next
    case pb: False
    with False show ?thesis
      by (simp add: singleJoiningSlash_def dropTrailingSlash_def dropLeadingSlash_def)
  qed
qed

lemma trimLeftSlashes_one:
  "\<not> prefix ''//'' b \<Longrightarrow> trimLeftSlashes b = dropLeadingSlash b"
  by (cases b; cases "tl b")
     (auto simp: trimLeftSlashes_def dropLeadingSlash_def HasPrefix_slash_def isSlash_def)

lemma dropTrailingSlash_rev: "dropTrailingSlash a = rev (dropLeadingSlash (rev a))"
  by (cases a rule: rev_cases)
     (auto simp: dropTrailingSlash_def dropLeadingSlash_def HasSuffix_slash_def
        HasPrefix_slash_def)

lemma trimRightSlashes_one:
  assumes "\<not> suffix ''//'' a"
  shows "trimRightSlashes a = dropTrailingSlash a"
proof -
  have "suffix ''//'' a \<longleftrightarrow> prefix (rev ''//'') (rev a)" by (simp only: suffix_to_prefix)
  with assms have "\<not> prefix ''//'' (rev a)" by simp
  then have "trimLeftSlashes (rev a) = dropLeadingSlash (rev a)" by (rule trimLeftSlashes_one)
  then show ?thesis
    by (simp add: trimRightSlashes_def trimLeftSlashes_def dropTrailingSlash_rev)
qed

text \<open>
  Claim C6, as stated for all strings, fails: only one slash is removed on either side, so
  when \<open>b\<close> begins with two slashes (or \<open>a\<close> ends with two) the result has two slashes
  at the join point, where exactly one separating slash gives \<^verbatim>\<open>/a/b\<close>.
\<close>

theorem join_of_double_slash:
  "singleJoiningSlash ''/a'' ''//b'' = ''/a//b'' \<and> spec_join ''/a'' ''//b'' = ''/a/b''"
  by code_simp

text \<open>
  Claim C6, amended: for all strings \<open>a\<close> and \<open>b\<close>, the result is \<open>a\<close> without one
  trailing slash (if it has one), one slash, and \<open>b\<close> without one leading slash (if it
  has one); so whenever \<open>a\<close> does not end with two slashes and \<open>b\<close> does not begin with
  two, exactly one slash stands at the join point, whether or not \<open>a\<close> ends with a slash
  and whether or not \<open>b\<close> begins with one. The four joins of the specification all give
  \<^verbatim>\<open>/a/b\<close>.
\<close>

theorem singleJoiningSlash_one_slash:
  "singleJoiningSlash a b = dropTrailingSlash a @ ''/'' @ dropLeadingSlash b \<and>
   (\<not> suffix ''//'' a \<and> \<not> prefix ''//'' b \<longrightarrow> singleJoiningSlash a b = spec_join a b) \<and>
   singleJoiningSlash ''/a/'' ''/b'' = ''/a/b'' \<and>
   singleJoiningSlash ''/a'' ''b'' = ''/a/b'' \<and>
   singleJoiningSlash ''/a/'' ''b'' = ''/a/b'' \<and>
   singleJoiningSlash ''/a'' ''/b'' = ''/a/b''"
proof -
  have 1: "singleJoiningSlash a b = dropTrailingSlash a @ ''/'' @ dropLeadingSlash b"
    by (rule singleJoiningSlash_drop)
  have 2: "singleJoiningSlash a b = spec_join a b"
    if "\<not> suffix ''//'' a" and "\<not> prefix ''//'' b"
    using that by (simp add: 1 spec_join_def trimRightSlashes_one trimLeftSlashes_one)
  have 3: "singleJoiningSlash ''/a/'' ''/b'' = ''/a/b''" by code_simp
  have 4: "singleJoiningSlash ''/a'' ''b'' = ''/a/b''" by code_simp
  have 5: "singleJoiningSlash ''/a/'' ''b'' = ''/a/b''" by code_simp
  have 6: "singleJoiningSlash ''/a'' ''/b'' = ''/a/b''" by code_simp
  from 1 2 3 4 5 6 show ?thesis by blast
qed

theorem singleJoiningSlash_one_slash_witness:
  "\<not> suffix ''//'' ''/ws/'' \<and> \<not> prefix ''//'' ''/chat'' \<and>
   singleJoiningSlash ''/ws/'' ''/chat'' = spec_join ''/ws/'' ''/chat'' \<and>
   spec_join ''/ws/'' ''/chat'' = ''/ws/chat''"
proof -
  have 1: "\<not> suffix ''//'' ''/ws/''" by (simp add: suffix_def)
  have 2: "\<not> prefix ''//'' ''/chat''" by simp
  have 3: "spec_join ''/ws/'' ''/chat'' = ''/ws/chat''" by code_simp
  from singleJoiningSlash_one_slash [of "''/ws/''" "''/chat''"] 1 2 3
  show ?thesis by blast
qed

end
